theory Spec2Isabelle
  imports Complex_Main "HOL-Library.Multiset"
begin

section \<open>Data model of the DisasterDash backend (src/backend/server.py)\<close>

text \<open>
  Instants are microseconds since the epoch, in UTC. The handlers read the clock with
  \<^verbatim>\<open>datetime.now(timezone.utc)\<close>; documents keep instants as the text
  \<^verbatim>\<open>isoformat()\<close> gives. Two such texts of the same offset compare as their
  instants do, so a stored text is represented by the instant it denotes. Where the code
  depends on whether a value is a text or a \<^verbatim>\<open>datetime\<close> object, the model keeps
  the difference (\<open>stored_time\<close>).
\<close>

type_synonym datetime = int

text \<open>
  A key of a stored document that the code reads with \<^verbatim>\<open>.get\<close>: the key may be
  missing, hold \<^verbatim>\<open>None\<close>, or hold a value.
\<close>

datatype 'a slot = Absent | Null | Val 'a

text \<open>\<^verbatim>\<open>d.get(key, default)\<close>; the result \<open>None\<close> is Python's \<^verbatim>\<open>None\<close>.\<close>

fun dict_get :: "'a slot \<Rightarrow> 'a option \<Rightarrow> 'a option" where
  "dict_get Absent dflt = dflt"
| "dict_get Null dflt = None"
| "dict_get (Val v) dflt = Some v"

text \<open>
  What a handler can raise. \<open>HTTPException\<close> carries the status code and the detail;
  any other exception that leaves a handler is answered with status 500.
\<close>

datatype py_exception =
    HTTPException nat string
  | TypeError
  | AttributeError
  | KeyError string
  | IndexError
  | ValidationError
  | RequestException
  | JSONDecodeError

record location =
  lat :: real
  lng :: real

record user =
  user_ident :: string
  email :: string
  name :: string
  picture :: "string option"
  preferred_city :: "string option"
  role :: string
  user_created_at :: datetime
  last_seen_at :: datetime

record report =
  report_ident :: string
  reporter_id :: string
  title :: string
  description :: string
  report_location :: location
  address :: "string option"
  city :: "string slot"
  country :: "string slot"
  image_url :: "string option"
  severity :: string
  ai_severity_score :: "real option"
  status :: string
  created_at :: datetime
  updated_at :: datetime
  ai_auto_flag :: bool

record shelter =
  shelter_ident :: string
  shelter_name :: string
  shelter_location :: location
  capacity :: int
  contact :: string
  shelter_type :: string
  shelter_created_at :: datetime

record incident =
  incident_title :: string
  incident_severity :: string
  priority :: nat

record ai_update =
  ai_update_ident :: string
  region :: string
  region_name :: string
  summary :: string
  severity_data :: "incident list"
  last_run_at :: datetime

text \<open>
  The \<^verbatim>\<open>created_at\<close> of a session document as \<^verbatim>\<open>verify_session\<close> reads it
  back. \<^verbatim>\<open>process_session\<close> stores the text of \<^verbatim>\<open>isoformat()\<close> (a
  \<^verbatim>\<open>str\<close>, never empty). A \<^verbatim>\<open>datetime\<close> kept in the store comes back from
  the client of line 21, which is opened without \<^verbatim>\<open>tz_aware\<close>, as a value with
  no offset.
\<close>

datatype stored_time = IsoString datetime | DateTime datetime

record session =
  session_token :: string
  user_id :: string
  session_created_at :: "stored_time slot"

text \<open>The five collections of the document store; a collection keeps insertion order.\<close>

record db =
  users :: "user list"
  reports :: "report list"
  shelters :: "shelter list"
  ai_updates :: "ai_update list"
  sessions :: "session list"

section \<open>The document store's operations\<close>

text \<open>
  \<^verbatim>\<open>find_one(filter)\<close> is \<^const>\<open>find\<close>: the first document that matches, or none.
  \<^verbatim>\<open>insert_one\<close> appends. \<^verbatim>\<open>update_one(filter, {"$set": ...})\<close> changes the first
  document that matches and reports how many it matched (0 or 1).
\<close>

fun update_one :: "('a \<Rightarrow> bool) \<Rightarrow> ('a \<Rightarrow> 'a) \<Rightarrow> 'a list \<Rightarrow> 'a list \<times> nat" where
  "update_one p f [] = ([], 0)"
| "update_one p f (x # xs) =
     (if p x then (f x # xs, 1)
      else (x # fst (update_one p f xs), snd (update_one p f xs)))"

text \<open>
  \<^verbatim>\<open>.sort(key, -1)\<close>: descending by the key. The order among equal keys is the
  store's own; no theorem below depends on it.
\<close>

definition sort_desc :: "('a \<Rightarrow> datetime) \<Rightarrow> 'a list \<Rightarrow> 'a list" where
  "sort_desc key xs = rev (sort_key key xs)"

text \<open>\<^verbatim>\<open>.to_list(n)\<close>: at most the first \<open>n\<close> documents of the cursor.\<close>

definition to_list :: "nat \<Rightarrow> 'a list \<Rightarrow> 'a list" where
  "to_list n xs = take n xs"

section \<open>Session authentication\<close>

text \<open>
  \<^verbatim>\<open>timedelta.days\<close>: a \<^verbatim>\<open>timedelta\<close> is normalised so that its seconds and
  microseconds are not negative, hence \<open>days\<close> is the floor of the length in days.
\<close>

definition timedelta_days :: "int \<Rightarrow> int" where
  "timedelta_days micros = micros div 86400000000"

text \<open>
  \<^verbatim>\<open>datetime.now(timezone.utc) - created_at\<close>: the left operand carries the offset
  of UTC. A \<^verbatim>\<open>str\<close> on the right raises \<^verbatim>\<open>TypeError\<close>; so does a
  \<^verbatim>\<open>datetime\<close> read back from the store, which has no offset.
\<close>

fun aware_minus :: "datetime \<Rightarrow> stored_time \<Rightarrow> py_exception + int" where
  "aware_minus now (IsoString t) = Inl TypeError"
| "aware_minus now (DateTime t) = Inl TypeError"

text \<open>
  \<^verbatim>\<open>created_at and (datetime.now(timezone.utc) - created_at).days > 7\<close>:
  a missing or \<^verbatim>\<open>None\<close> value is falsy and skips the test; any other value is
  truthy and is subtracted.
\<close>

fun session_expired :: "datetime \<Rightarrow> stored_time option \<Rightarrow> py_exception + bool" where
  "session_expired now None = Inr False"
| "session_expired now (Some v) =
     (case aware_minus now v of
        Inl e \<Rightarrow> Inl e
      | Inr delta \<Rightarrow> Inr (timedelta_days delta > 7))"

definition verify_session :: "datetime \<Rightarrow> db \<Rightarrow> string option \<Rightarrow> py_exception + string" where
  "verify_session now st authorization =
     (case authorization of
        None \<Rightarrow> Inl (HTTPException 401 ''No authorization token provided'')
      | Some credentials \<Rightarrow>
          (case find (\<lambda>s. session_token s = credentials) (sessions st) of
             None \<Rightarrow> Inl (HTTPException 401 ''Invalid session token'')
           | Some s \<Rightarrow>
               (case session_expired now (dict_get (session_created_at s) None) of
                  Inl e \<Rightarrow> Inl e
                | Inr True \<Rightarrow> Inl (HTTPException 401 ''Session expired'')
                | Inr False \<Rightarrow> Inr (user_id s))))"

definition verify_admin :: "datetime \<Rightarrow> db \<Rightarrow> string option \<Rightarrow> py_exception + string" where
  "verify_admin now st authorization =
     (case verify_session now st authorization of
        Inl e \<Rightarrow> Inl e
      | Inr uid \<Rightarrow>
          (case find (\<lambda>u. user_ident u = uid) (users st) of
             None \<Rightarrow> Inl (HTTPException 403 ''Admin access required'')
           | Some u \<Rightarrow>
               if role u \<noteq> ''admin'' then Inl (HTTPException 403 ''Admin access required'')
               else Inr uid))"

section \<open>Login: exchanging an external session\<close>

text \<open>
  What the call to the external session service gives: the request itself fails, or a
  response with a status code and a body that parses as JSON (\<open>Some\<close>) or does not.
  In the parsed body a key is present (\<open>Some\<close>) or missing.
\<close>

record user_data =
  ud_email :: "string option"
  ud_name :: "string option"
  ud_picture :: "string option"

datatype exchange = RequestFailed | Response nat "user_data option"

record login_result =
  login_session_token :: string
  login_user :: "user option"

text \<open>
  The body of the \<^verbatim>\<open>try\<close> block of \<^verbatim>\<open>process_session\<close>. \<open>uuid1\<close> and \<open>uuid2\<close>
  are the values of the two \<^verbatim>\<open>uuid.uuid4()\<close> calls (the new user's id and the token).
\<close>

definition process_session_try ::
  "datetime \<Rightarrow> string \<Rightarrow> string \<Rightarrow> exchange \<Rightarrow> db \<Rightarrow> (py_exception + login_result) \<times> db" where
  "process_session_try now uuid1 uuid2 ex st =
     (case ex of
        RequestFailed \<Rightarrow> (Inl RequestException, st)
      | Response code body \<Rightarrow>
          if code \<noteq> 200 then (Inl (HTTPException 401 ''Invalid session''), st)
          else (case body of
             None \<Rightarrow> (Inl JSONDecodeError, st)
           | Some ud \<Rightarrow>
               (case ud_email ud of
                  None \<Rightarrow> (Inl (KeyError ''email''), st)
                | Some em \<Rightarrow>
                    (case (case find (\<lambda>u. email u = em) (users st) of
                             None \<Rightarrow>
                               (case ud_name ud of
                                  None \<Rightarrow> Inl (KeyError ''name'')
                                | Some nm \<Rightarrow>
                                    Inr (uuid1,
                                         st\<lparr>users := users st @
                                           [\<lparr>user_ident = uuid1, email = em, name = nm,
                                             picture = ud_picture ud, preferred_city = None,
                                             role = ''user'', user_created_at = now,
                                             last_seen_at = now\<rparr>]\<rparr>))
                           | Some existing_user \<Rightarrow>
                               Inr (user_ident existing_user,
                                    st\<lparr>users := fst (update_one
                                          (\<lambda>u. user_ident u = user_ident existing_user)
                                          (\<lambda>u. u\<lparr>last_seen_at := now\<rparr>) (users st))\<rparr>)) of
                       Inl e \<Rightarrow> (Inl e, st)
                     | Inr (uid, st1) \<Rightarrow>
                         (let token = ''session_'' @ uuid2;
                              st2 = st1\<lparr>sessions := sessions st1 @
                                      [\<lparr>session_token = token, user_id = uid,
                                        session_created_at = Val (IsoString now)\<rparr>]\<rparr>
                          in (Inr \<lparr>login_session_token = token,
                                   login_user = find (\<lambda>u. user_ident u = uid) (users st2)\<rparr>,
                              st2))))))"

text \<open>
  \<^verbatim>\<open>except Exception\<close> catches whatever the block raises, the block's own
  \<^verbatim>\<open>HTTPException\<close> included, and raises status 500 in its place.
\<close>

definition process_session ::
  "datetime \<Rightarrow> string \<Rightarrow> string \<Rightarrow> exchange \<Rightarrow> db \<Rightarrow> (py_exception + login_result) \<times> db" where
  "process_session now uuid1 uuid2 ex st =
     (case process_session_try now uuid1 uuid2 ex st of
        (Inl e, st') \<Rightarrow> (Inl (HTTPException 500 ''Session processing failed''), st')
      | (Inr r, st') \<Rightarrow> (Inr r, st'))"

section \<open>Reports\<close>

text \<open>
  The fields \<^verbatim>\<open>ReportCreate\<close> declares. A request body may carry further keys;
  the model class has no field for them and drops them when the body is parsed.
\<close>

record report_create =
  rc_title :: string
  rc_description :: string
  rc_location :: location
  rc_address :: "string option"
  rc_city :: "string option"
  rc_country :: "string option"
  rc_image_url :: "string option"
  rc_severity :: string

text \<open>
  The JSON body of a create request as a client may send it: the declared keys
  (\<^verbatim>\<open>severity\<close> may be left out) and the four keys of \<^verbatim>\<open>Report\<close> that
  \<^verbatim>\<open>ReportCreate\<close> does not declare.
\<close>

record create_body =
  body_title :: string
  body_description :: string
  body_location :: location
  body_address :: "string option"
  body_city :: "string option"
  body_country :: "string option"
  body_image_url :: "string option"
  body_severity :: "string option"
  body_reporter_id :: "string option"
  body_status :: "string option"
  body_ai_severity_score :: "real option"
  body_ai_auto_flag :: "bool option"

definition parse_report_create :: "create_body \<Rightarrow> report_create" where
  "parse_report_create b =
     \<lparr>rc_title = body_title b, rc_description = body_description b,
      rc_location = body_location b, rc_address = body_address b, rc_city = body_city b,
      rc_country = body_country b, rc_image_url = body_image_url b,
      rc_severity = (case body_severity b of None \<Rightarrow> ''moderate'' | Some v \<Rightarrow> v)\<rparr>"

text \<open>A key of \<^verbatim>\<open>Report.dict()\<close> for an optional field: always present.\<close>

fun slot_of :: "'a option \<Rightarrow> 'a slot" where
  "slot_of None = Null"
| "slot_of (Some v) = Val v"

text \<open>
  \<^verbatim>\<open>Report(**report_data)\<close>: the keys of \<^verbatim>\<open>report_data\<close> and the defaults of
  the class for the rest. \<open>uuid\<close> is the value of \<^verbatim>\<open>uuid.uuid4()\<close>.
\<close>

definition new_report :: "datetime \<Rightarrow> string \<Rightarrow> string \<Rightarrow> report_create \<Rightarrow> report" where
  "new_report now uuid uid rc =
     \<lparr>report_ident = uuid, reporter_id = uid, title = rc_title rc,
      description = rc_description rc, report_location = rc_location rc,
      address = rc_address rc, city = slot_of (rc_city rc), country = slot_of (rc_country rc),
      image_url = rc_image_url rc, severity = rc_severity rc, ai_severity_score = None,
      status = ''pending'', created_at = now, updated_at = now, ai_auto_flag = False\<rparr>"

definition create_report ::
  "datetime \<Rightarrow> string \<Rightarrow> create_body \<Rightarrow> string option \<Rightarrow> db \<Rightarrow> (py_exception + report) \<times> db" where
  "create_report now uuid body authorization st =
     (case verify_session now st authorization of
        Inl e \<Rightarrow> (Inl e, st)
      | Inr uid \<Rightarrow>
          (let r = new_report now uuid uid (parse_report_create body)
           in (Inr r, st\<lparr>reports := reports st @ [r]\<rparr>)))"

text \<open>
  A query is a dict of key and text; a document matches when each key of the query holds
  exactly that text. Only \<^verbatim>\<open>city\<close> and \<^verbatim>\<open>status\<close> are ever queried.
\<close>

type_synonym query = "(string \<times> string) list"

definition report_key :: "report \<Rightarrow> string \<Rightarrow> string slot" where
  "report_key r k =
     (if k = ''city'' then city r else if k = ''status'' then Val (status r) else Absent)"

fun matches :: "query \<Rightarrow> report \<Rightarrow> bool" where
  "matches [] r = True"
| "matches ((k, v) # q) r = (report_key r k = Val v \<and> matches q r)"

text \<open>\<^verbatim>\<open>if value: query[key] = value\<close>: \<^verbatim>\<open>None\<close> and the empty text are falsy.\<close>

fun add_if_truthy :: "string \<Rightarrow> string option \<Rightarrow> query \<Rightarrow> query" where
  "add_if_truthy k None q = q"
| "add_if_truthy k (Some v) q = (if v = [] then q else q @ [(k, v)])"

definition get_reports :: "string option \<Rightarrow> string option \<Rightarrow> db \<Rightarrow> report list" where
  "get_reports city_arg status_arg st =
     (let query = add_if_truthy ''status'' status_arg (add_if_truthy ''city'' city_arg [])
      in to_list 1000 (sort_desc created_at (filter (matches query) (reports st))))"

record report_update =
  ru_status :: string
  ru_ai_severity_score :: "real option"
  ru_ai_auto_flag :: "bool option"

text \<open>One key of a \<^verbatim>\<open>$set\<close> document and what it does to a stored report.\<close>

datatype set_key =
    SetStatus string
  | SetAiSeverityScore real
  | SetAiAutoFlag bool
  | SetUpdatedAt datetime

fun set_one :: "set_key \<Rightarrow> report \<Rightarrow> report" where
  "set_one (SetStatus v) r = r\<lparr>status := v\<rparr>"
| "set_one (SetAiSeverityScore v) r = r\<lparr>ai_severity_score := Some v\<rparr>"
| "set_one (SetAiAutoFlag v) r = r\<lparr>ai_auto_flag := v\<rparr>"
| "set_one (SetUpdatedAt v) r = r\<lparr>updated_at := v\<rparr>"

definition set_all :: "set_key list \<Rightarrow> report \<Rightarrow> report" where
  "set_all ks r = fold set_one ks r"

text \<open>
  \<^verbatim>\<open>{k: v for k, v in update.dict().items() if v is not None}\<close>, then the
  \<^verbatim>\<open>updated_at\<close> key.
\<close>

definition update_data :: "datetime \<Rightarrow> report_update \<Rightarrow> set_key list" where
  "update_data now u =
     [SetStatus (ru_status u)]
     @ (case ru_ai_severity_score u of None \<Rightarrow> [] | Some v \<Rightarrow> [SetAiSeverityScore v])
     @ (case ru_ai_auto_flag u of None \<Rightarrow> [] | Some v \<Rightarrow> [SetAiAutoFlag v])
     @ [SetUpdatedAt now]"

definition update_report ::
  "datetime \<Rightarrow> string \<Rightarrow> report_update \<Rightarrow> string option \<Rightarrow> db \<Rightarrow> (py_exception + string) \<times> db" where
  "update_report now report_id u authorization st =
     (case verify_admin now st authorization of
        Inl e \<Rightarrow> (Inl e, st)
      | Inr uid \<Rightarrow>
          (let result = update_one (\<lambda>r. report_ident r = report_id)
                          (set_all (update_data now u)) (reports st);
               st' = st\<lparr>reports := fst result\<rparr>
           in if snd result = 0 then (Inl (HTTPException 404 ''Report not found''), st')
              else (Inr ''Report updated successfully'', st')))"

text \<open>
  The reading of the list operation in the specification: a filter value that is given
  is compared with the record's field; one that is absent imposes nothing.
\<close>

fun spec_field_ok :: "string option \<Rightarrow> string slot \<Rightarrow> bool" where
  "spec_field_ok None x = True"
| "spec_field_ok (Some v) x = (x = Val v)"

definition spec_selected :: "string option \<Rightarrow> string option \<Rightarrow> report \<Rightarrow> bool" where
  "spec_selected city_arg status_arg r =
     (spec_field_ok city_arg (city r) \<and> spec_field_ok status_arg (Val (status r)))"

text \<open>The filter value that takes effect: the empty text counts as no filter.\<close>

fun effective :: "string option \<Rightarrow> string option" where
  "effective None = None"
| "effective (Some v) = (if v = [] then None else Some v)"

section \<open>The aggregation stub\<close>

text \<open>
  \<^verbatim>\<open>datetime.timedelta(days=1)\<close>. The module's only import of the name is
  \<^verbatim>\<open>from datetime import datetime, timezone\<close>, so \<^verbatim>\<open>datetime\<close> is the class,
  and the class has no attribute \<^verbatim>\<open>timedelta\<close>: the lookup raises
  \<^verbatim>\<open>AttributeError\<close> whatever the argument.
\<close>

definition datetime_timedelta :: "int \<Rightarrow> py_exception + int" where
  "datetime_timedelta days = Inl AttributeError"

fun truthy :: "string option \<Rightarrow> bool" where
  "truthy None = False"
| "truthy (Some v) = (v \<noteq> [])"

text \<open>
  Grouping into a dict of lists: a new key goes last, a report goes to the end of its
  key's list. The key is \<^verbatim>\<open>report.get("city", "Unknown")\<close>.
\<close>

fun add_to_group :: "'k \<Rightarrow> 'v \<Rightarrow> ('k \<times> 'v list) list \<Rightarrow> ('k \<times> 'v list) list" where
  "add_to_group k v [] = [(k, [v])]"
| "add_to_group k v ((k', vs) # g) =
     (if k = k' then (k', vs @ [v]) # g else (k', vs) # add_to_group k v g)"

definition group_by_city :: "report list \<Rightarrow> (string option \<times> report list) list" where
  "group_by_city rs =
     foldl (\<lambda>g r. add_to_group (dict_get (city r) (Some ''Unknown'')) r g) [] rs"

fun str_nat :: "nat \<Rightarrow> string" where
  "str_nat n =
     (if n < 10 then [char_of (48 + n)] else str_nat (n div 10) @ [char_of (48 + n mod 10)])"

text \<open>A text or \<^verbatim>\<open>None\<close> inside an f-string.\<close>

fun format_opt :: "string option \<Rightarrow> string" where
  "format_opt None = ''None''"
| "format_opt (Some v) = v"

record ai_response =
  overall_severity :: string
  severity_score :: real
  critical_incidents :: "incident list"
  response_summary :: string

text \<open>The fixed response that stands in for the model's; \<open>r0\<close> is \<^verbatim>\<open>reports[0]\<close>.\<close>

definition mock_ai_response :: "string option \<Rightarrow> report \<Rightarrow> nat \<Rightarrow> ai_response" where
  "mock_ai_response c r0 n =
     \<lparr>overall_severity = ''moderate'', severity_score = 6 / 10,
      critical_incidents =
        [\<lparr>incident_title = title r0, incident_severity = ''moderate'', priority = 1\<rparr>],
      response_summary =
        ''Monitoring '' @ str_nat n @ '' incidents in '' @ format_opt c
          @ ''. Situation under control.''\<rparr>"

text \<open>The inner loop: one \<^verbatim>\<open>update_one\<close> by id for each report of the group.\<close>

definition patch_reports :: "datetime \<Rightarrow> real \<Rightarrow> report list \<Rightarrow> report list \<Rightarrow> report list" where
  "patch_reports now score grp stored =
     foldl (\<lambda>rs r. fst (update_one (\<lambda>x. report_ident x = report_ident r)
                          (set_all [SetAiSeverityScore score, SetAiAutoFlag (score > 7 / 10),
                                    SetUpdatedAt now]) rs))
       stored grp"

text \<open>
  The loop over the city groups. \<open>uuids k\<close> is the id that \<^verbatim>\<open>uuid.uuid4()\<close> gives the
  \<open>k\<close>-th record. \<^verbatim>\<open>AIUpdate\<close> declares \<^verbatim>\<open>region_name: str\<close>, so the key
  \<^verbatim>\<open>None\<close> fails validation.
\<close>

fun analyze_cities ::
  "datetime \<Rightarrow> (nat \<Rightarrow> string) \<Rightarrow> (string option \<times> report list) list \<Rightarrow> ai_update list \<Rightarrow> db
     \<Rightarrow> (py_exception + ai_update list) \<times> db" where
  "analyze_cities now uuids [] made st = (Inr made, st)"
| "analyze_cities now uuids ((c, grp) # rest) made st =
     (case grp of
        [] \<Rightarrow> (Inl IndexError, st)
      | r0 # _ \<Rightarrow>
          (let resp = mock_ai_response c r0 (length grp) in
           case c of
             None \<Rightarrow> (Inl ValidationError, st)
           | Some city_name \<Rightarrow>
               (let u = \<lparr>ai_update_ident = uuids (length made), region = ''city'',
                         region_name = city_name, summary = response_summary resp,
                         severity_data = critical_incidents resp, last_run_at = now\<rparr>;
                    st1 = st\<lparr>ai_updates := ai_updates st @ [u]\<rparr>;
                    st2 = st1\<lparr>reports :=
                            patch_reports now (severity_score resp) grp (reports st1)\<rparr>
                in analyze_cities now uuids rest (made @ [u]) st2)))"

datatype analysis_reply = Message string | Completed string nat nat

text \<open>The body of the \<^verbatim>\<open>try\<close> block of \<^verbatim>\<open>trigger_ai_analysis\<close>.\<close>

definition trigger_ai_analysis_try ::
  "datetime \<Rightarrow> (nat \<Rightarrow> string) \<Rightarrow> string option \<Rightarrow> db \<Rightarrow> (py_exception + analysis_reply) \<times> db" where
  "trigger_ai_analysis_try now uuids emergent_key st =
     (if \<not> truthy emergent_key then (Inl (HTTPException 500 ''AI service not configured''), st)
      else
        (case datetime_timedelta 1 of
           Inl e \<Rightarrow> (Inl e, st)
         | Inr delta \<Rightarrow>
             (let recent_reports =
                    to_list 100 (filter (\<lambda>r. now - delta \<le> created_at r) (reports st))
              in if recent_reports = [] then (Inr (Message ''No recent reports to analyze''), st)
                 else
                   (let city_reports = group_by_city recent_reports in
                    case analyze_cities now uuids city_reports [] st of
                      (Inl e, st') \<Rightarrow> (Inl e, st')
                    | (Inr made, st') \<Rightarrow>
                        (Inr (Completed ''AI analysis completed'' (length city_reports)
                                (length made)), st')))))"

text \<open>
  The handler: the admin check, then the block; \<^verbatim>\<open>except Exception\<close> turns whatever
  the block raises into status 500. \<open>str_of\<close> is \<^verbatim>\<open>str(e)\<close>, the interpreter's
  text of the exception.
\<close>

definition trigger_ai_analysis ::
  "(py_exception \<Rightarrow> string) \<Rightarrow> datetime \<Rightarrow> (nat \<Rightarrow> string) \<Rightarrow> string option \<Rightarrow> string option \<Rightarrow> db
     \<Rightarrow> (py_exception + analysis_reply) \<times> db" where
  "trigger_ai_analysis str_of now uuids emergent_key authorization st =
     (case verify_admin now st authorization of
        Inl e \<Rightarrow> (Inl e, st)
      | Inr uid \<Rightarrow>
          (case trigger_ai_analysis_try now uuids emergent_key st of
             (Inl e, st') \<Rightarrow> (Inl (HTTPException 500 (''AI analysis failed: '' @ str_of e)), st')
           | (Inr reply, st') \<Rightarrow> (Inr reply, st')))"

section \<open>The dashboard aggregator\<close>

record item =
  item_ident :: string
  item_title :: string
  item_city :: "string option"
  item_country :: "string option"
  item_severity :: string
  item_created_at :: datetime
  item_location :: location

definition compact_item :: "report \<Rightarrow> item" where
  "compact_item r =
     \<lparr>item_ident = report_ident r, item_title = title r,
      item_city = dict_get (city r) (Some ''Unknown''),
      item_country = dict_get (country r) (Some ''Unknown''),
      item_severity = severity r, item_created_at = created_at r,
      item_location = report_location r\<rparr>"

text \<open>The six lists the loop appends to.\<close>

record categories =
  city_critical :: "item list"
  city_moderate :: "item list"
  city_low :: "item list"
  world_critical :: "item list"
  world_moderate :: "item list"
  world_low :: "item list"

definition no_categories :: categories where
  "no_categories =
     \<lparr>city_critical = [], city_moderate = [], city_low = [],
      world_critical = [], world_moderate = [], world_low = []\<rparr>"

definition categorize_one :: "categories \<Rightarrow> report \<Rightarrow> categories" where
  "categorize_one cs r =
     (let it = compact_item r in
      if severity r = ''critical'' then
        cs\<lparr>city_critical := city_critical cs @ [it], world_critical := world_critical cs @ [it]\<rparr>
      else if severity r = ''moderate'' then
        cs\<lparr>city_moderate := city_moderate cs @ [it], world_moderate := world_moderate cs @ [it]\<rparr>
      else
        cs\<lparr>city_low := city_low cs @ [it], world_low := world_low cs @ [it]\<rparr>)"

definition categorize :: "report list \<Rightarrow> categories" where
  "categorize rs = foldl categorize_one no_categories rs"

record severity_lists =
  critical :: "item list"
  moderate :: "item list"
  low :: "item list"

record dashboard =
  dash_reports :: "report list"
  dash_shelters :: "shelter list"
  dash_ai_updates :: "ai_update list"
  city_data :: severity_lists
  world_data :: severity_lists
  last_ai_update :: "datetime option"

text \<open>The reports the dashboard fetches: the 100 newest.\<close>

definition dashboard_reports :: "db \<Rightarrow> report list" where
  "dashboard_reports st = to_list 100 (sort_desc created_at (reports st))"

definition get_dashboard_data :: "db \<Rightarrow> dashboard" where
  "get_dashboard_data st =
     (let rs = dashboard_reports st;
          shs = to_list 100 (shelters st);
          ups = to_list 20 (sort_desc last_run_at (ai_updates st));
          cs = categorize rs
      in \<lparr>dash_reports = rs, dash_shelters = shs, dash_ai_updates = ups,
          city_data = \<lparr>critical = take 5 (city_critical cs),
                       moderate = take 5 (city_moderate cs),
                       low = take 5 (city_low cs)\<rparr>,
          world_data = \<lparr>critical = take 5 (world_critical cs),
                        moderate = take 5 (world_moderate cs),
                        low = take 5 (world_low cs)\<rparr>,
          last_ai_update = (case ups of [] \<Rightarrow> None | u # _ \<Rightarrow> Some (last_run_at u))\<rparr>)"

section \<open>Example states\<close>

text \<open>
  A store with one administrator, whose session document has no \<^verbatim>\<open>created_at\<close>
  key, and two reports; and a create request that also sends the four keys the server
  sets itself.
\<close>

definition empty_db :: db where
  "empty_db = \<lparr>users = [], reports = [], shelters = [], ai_updates = [], sessions = []\<rparr>"

definition admin_user :: user where
  "admin_user =
     \<lparr>user_ident = ''u-admin'', email = ''admin@disasterdash.com'', name = ''Admin User'',
      picture = None, preferred_city = Some ''New York'', role = ''admin'',
      user_created_at = 0, last_seen_at = 0\<rparr>"

definition admin_session :: session where
  "admin_session =
     \<lparr>session_token = ''session_admin'', user_id = ''u-admin'',
      session_created_at = Absent\<rparr>"

definition flood_report :: report where
  "flood_report =
     \<lparr>report_ident = ''r-1'', reporter_id = ''u-admin'', title = ''Flooding in London'',
      description = ''Thames overflowing'', report_location = \<lparr>lat = 51, lng = 0\<rparr>,
      address = None, city = Val ''London'', country = Val ''United Kingdom'',
      image_url = None, severity = ''moderate'', ai_severity_score = Some (7 / 10),
      status = ''pending'', created_at = 10, updated_at = 10, ai_auto_flag = True\<rparr>"

definition quake_report :: report where
  "quake_report =
     \<lparr>report_ident = ''r-2'', reporter_id = ''u-admin'', title = ''Earthquake in Tokyo'',
      description = ''Magnitude 6'', report_location = \<lparr>lat = 35, lng = 139\<rparr>,
      address = None, city = Val ''Tokyo'', country = Val ''Japan'',
      image_url = None, severity = ''critical'', ai_severity_score = None,
      status = ''pending'', created_at = 20, updated_at = 20, ai_auto_flag = False\<rparr>"

definition admin_db :: db where
  "admin_db =
     \<lparr>users = [admin_user], reports = [flood_report, quake_report], shelters = [],
      ai_updates = [], sessions = [admin_session]\<rparr>"

definition paris_body :: create_body where
  "paris_body =
     \<lparr>body_title = ''Fire'', body_description = ''Warehouse fire'',
      body_location = \<lparr>lat = 48, lng = 2\<rparr>, body_address = None,
      body_city = Some ''Paris'', body_country = Some ''France'', body_image_url = None,
      body_severity = Some ''critical'', body_reporter_id = Some ''u-mallory'',
      body_status = Some ''validated'', body_ai_severity_score = Some 1,
      body_ai_auto_flag = Some True\<rparr>"

text \<open>The compact projection of the report that the request creates at instant 30.\<close>

definition paris_item :: item where
  "paris_item =
     \<lparr>item_ident = ''r-3'', item_title = ''Fire'', item_city = Some ''Paris'',
      item_country = Some ''France'', item_severity = ''critical'', item_created_at = 30,
      item_location = \<lparr>lat = 48, lng = 2\<rparr>\<rparr>"

text \<open>The same store with no report at all, and a store with 1001 reports.\<close>

definition quiet_db :: db where
  "quiet_db = admin_db\<lparr>reports := []\<rparr>"

definition crowded_db :: db where
  "crowded_db = empty_db\<lparr>reports := replicate 1001 flood_report\<rparr>"

text \<open>An update request that names the status only.\<close>

definition validate_only :: report_update where
  "validate_only =
     \<lparr>ru_status = ''validated'', ru_ai_severity_score = None, ru_ai_auto_flag = None\<rparr>"

section \<open>Facts about the store's operations\<close>

lemma sort_desc_sorted: "sorted_wrt (\<lambda>a b. key b \<le> key a) (sort_desc key xs)"
proof -
  have "sorted (map key (sort_key key xs))" by (rule sorted_sort_key)
  then have "sorted_wrt (\<lambda>a b. key a \<le> key b) (sort_key key xs)"
    by (simp add: sorted_map)
  then show ?thesis
    by (simp add: sort_desc_def sorted_wrt_rev)
qed

lemma mset_sort_desc: "mset (sort_desc key xs) = mset xs"
  by (simp add: sort_desc_def)

lemma set_sort_desc: "set (sort_desc key xs) = set xs"
  by (simp add: sort_desc_def)

lemma length_sort_desc: "length (sort_desc key xs) = length xs"
  by (simp add: sort_desc_def)

lemma newest_first:
  fixes key :: "'a \<Rightarrow> int"
  assumes srt: "sorted_wrt (\<lambda>a b. key b \<le> key a) ys"
    and mem: "a \<in> set ys"
    and newest: "\<And>y. y \<in> set ys \<Longrightarrow> y \<noteq> a \<Longrightarrow> key y < key a"
  shows "\<exists>rest. ys = a # rest"
proof (cases ys)
  case Nil
  with mem show ?thesis by simp
next
  case (Cons y rest)
  show ?thesis
  proof (cases "y = a")
    case True
    with Cons show ?thesis by simp
  next
    case False
    with mem Cons have "a \<in> set rest" by simp
    with srt Cons have "key a \<le> key y" by auto
    moreover from newest[of y] Cons False have "key y < key a" by simp
    ultimately show ?thesis by simp
  qed
qed

lemma city_critical_foldl:
  "city_critical (foldl categorize_one cs rs)
     = city_critical cs @ map compact_item (filter (\<lambda>r. severity r = ''critical'') rs)"
  by (induction rs arbitrary: cs) (simp_all add: categorize_one_def Let_def)

lemma city_moderate_foldl:
  "city_moderate (foldl categorize_one cs rs)
     = city_moderate cs @ map compact_item (filter (\<lambda>r. severity r = ''moderate'') rs)"
  by (induction rs arbitrary: cs) (simp_all add: categorize_one_def Let_def)

lemma city_low_foldl:
  "city_low (foldl categorize_one cs rs)
     = city_low cs @ map compact_item
         (filter (\<lambda>r. severity r \<noteq> ''critical'' \<and> severity r \<noteq> ''moderate'') rs)"
  by (induction rs arbitrary: cs) (simp_all add: categorize_one_def Let_def)

lemma world_critical_foldl:
  "world_critical (foldl categorize_one cs rs)
     = world_critical cs @ map compact_item (filter (\<lambda>r. severity r = ''critical'') rs)"
  by (induction rs arbitrary: cs) (simp_all add: categorize_one_def Let_def)

lemma world_moderate_foldl:
  "world_moderate (foldl categorize_one cs rs)
     = world_moderate cs @ map compact_item (filter (\<lambda>r. severity r = ''moderate'') rs)"
  by (induction rs arbitrary: cs) (simp_all add: categorize_one_def Let_def)

lemma world_low_foldl:
  "world_low (foldl categorize_one cs rs)
     = world_low cs @ map compact_item
         (filter (\<lambda>r. severity r \<noteq> ''critical'' \<and> severity r \<noteq> ''moderate'') rs)"
  by (induction rs arbitrary: cs) (simp_all add: categorize_one_def Let_def)

lemma three_way_split:
  "mset (filter (\<lambda>r. severity r = ''critical'') rs)
   + mset (filter (\<lambda>r. severity r = ''moderate'') rs)
   + mset (filter (\<lambda>r. severity r \<noteq> ''critical'' \<and> severity r \<noteq> ''moderate'') rs)
   = mset rs"
  by (induction rs) auto

lemma update_one_no_match:
  "(\<And>x. x \<in> set xs \<Longrightarrow> \<not> p x) \<Longrightarrow> update_one p f xs = (xs, 0)"
  by (induction xs) simp_all

lemma update_one_first_match:
  "(\<And>x. x \<in> set pre \<Longrightarrow> \<not> p x) \<Longrightarrow> p x
     \<Longrightarrow> update_one p f (pre @ x # post) = (pre @ f x # post, 1)"
  by (induction pre) simp_all

lemma matches_query:
  "matches (add_if_truthy ''status'' s (add_if_truthy ''city'' c [])) r
     = spec_selected (effective c) (effective s) r"
  by (cases c; cases s) (auto simp: spec_selected_def report_key_def)

lemma admin_db_session: "verify_session 30 admin_db (Some ''session_admin'') = Inr ''u-admin''"
  by (simp add: verify_session_def admin_db_def admin_session_def timedelta_days_def)

lemma admin_db_admin: "verify_admin 30 admin_db (Some ''session_admin'') = Inr ''u-admin''"
  unfolding verify_admin_def admin_db_session
  by (simp add: admin_db_def admin_user_def)

section \<open>Session verification\<close>

text \<open>
  What \<^verbatim>\<open>verify_session\<close> does with the session it finds: a session whose
  \<^verbatim>\<open>created_at\<close> holds a value, text or \<^verbatim>\<open>datetime\<close>, raises
  \<^verbatim>\<open>TypeError\<close> at every time; a session whose \<^verbatim>\<open>created_at\<close> is missing or
  null verifies at every time. The comparison of the whole days with 7 is never reached.
\<close>

lemma verify_session_stored_value:
  assumes "find (\<lambda>s. session_token s = tok) (sessions st) = Some s"
    and "session_created_at s = Val v"
  shows "verify_session now st (Some tok) = Inl TypeError"
  using assms by (cases v) (simp_all add: verify_session_def)

lemma verify_session_no_created_at:
  assumes "find (\<lambda>s. session_token s = tok) (sessions st) = Some s"
    and "session_created_at s = Absent \<or> session_created_at s = Null"
  shows "verify_session now st (Some tok) = Inr (user_id s)"
  using assms by (auto simp: verify_session_def)

text \<open>
  C1. The claim: a session no more than 7 whole days old verifies and yields its user id.
  The session documents of this program are written by \<^verbatim>\<open>process_session\<close>, which
  stores \<^verbatim>\<open>created_at\<close> as the text of \<^verbatim>\<open>isoformat()\<close>. After a successful login
  on the empty store, verifying the token just issued raises \<^verbatim>\<open>TypeError\<close> at
  every time \<open>now'\<close>, one second later as well as eight days later: a \<^verbatim>\<open>str\<close>
  cannot be subtracted from a \<^verbatim>\<open>datetime\<close>. The request is answered with status
  500; it neither succeeds nor is refused with status 401.
\<close>

theorem verify_session_after_login_raises:
  "case process_session now uuid1 uuid2
          (Response 200 (Some \<lparr>ud_email = Some em, ud_name = Some nm, ud_picture = pic\<rparr>))
          empty_db of
     (Inr res, st') \<Rightarrow>
        login_session_token res = ''session_'' @ uuid2
        \<and> verify_session now' st' (Some (login_session_token res)) = Inl TypeError
   | (Inl e, st') \<Rightarrow> False"
  by (simp add: process_session_def process_session_try_def empty_db_def verify_session_def
      Let_def)

section \<open>Login\<close>

text \<open>
  C6. The claim: a response of the session service with a status other than 200 fails the
  login with status 401, and a network or parse failure fails it with status 500. The
  \<^verbatim>\<open>HTTPException\<close> of status 401 is raised inside the \<^verbatim>\<open>try\<close> block whose
  \<^verbatim>\<open>except Exception\<close> catches it: a response of status 404 or 401 ends in status 500
  with the detail ``Session processing failed'', as a failed request and a body that does
  not parse do.
\<close>

theorem process_session_non_200_is_500:
  "process_session now uuid1 uuid2 (Response 404 body) st
     = (Inl (HTTPException 500 ''Session processing failed''), st)
   \<and> process_session now uuid1 uuid2 (Response 401 body) st
     = (Inl (HTTPException 500 ''Session processing failed''), st)
   \<and> process_session now uuid1 uuid2 RequestFailed st
     = (Inl (HTTPException 500 ''Session processing failed''), st)
   \<and> process_session now uuid1 uuid2 (Response 200 None) st
     = (Inl (HTTPException 500 ''Session processing failed''), st)"
  by (simp add: process_session_def process_session_try_def)

section \<open>Creating and listing reports\<close>

text \<open>
  C4. For every create request of an authenticated caller, whatever the body holds under
  \<^verbatim>\<open>reporter_id\<close>, \<^verbatim>\<open>status\<close>, \<^verbatim>\<open>ai_severity_score\<close> and
  \<^verbatim>\<open>ai_auto_flag\<close>, the handler returns a record and stores that same record as the
  last report; its reporter is the caller, its status is ``pending'', its score is null
  and its flag is false.
\<close>

theorem create_report_forces_server_fields:
  assumes "verify_session now st authorization = Inr uid"
  shows "\<exists>r. create_report now uuid body authorization st
               = (Inr r, st\<lparr>reports := reports st @ [r]\<rparr>)
             \<and> reporter_id r = uid \<and> status r = ''pending''
             \<and> ai_severity_score r = None \<and> ai_auto_flag r = False"
  using assms by (simp add: create_report_def new_report_def Let_def)

theorem create_report_forces_server_fields_witness:
  "verify_session 30 admin_db (Some ''session_admin'') = Inr ''u-admin''
   \<and> (\<exists>r. create_report 30 ''r-3'' paris_body (Some ''session_admin'') admin_db
               = (Inr r, admin_db\<lparr>reports := reports admin_db @ [r]\<rparr>)
             \<and> reporter_id r = ''u-admin'' \<and> status r = ''pending''
             \<and> ai_severity_score r = None \<and> ai_auto_flag r = False)"
  using create_report_forces_server_fields [OF admin_db_session, of "''r-3''" paris_body]
    admin_db_session
  by simp

text \<open>
  C10. A city or status filter that is the empty text gives the same list as that filter
  left out, in every state and whatever the other filter is.
\<close>

theorem get_reports_empty_filter_is_absent:
  "get_reports (Some []) status_arg st = get_reports None status_arg st
   \<and> get_reports city_arg (Some []) st = get_reports city_arg None st"
  by (simp add: get_reports_def)

text \<open>
  The reading of the query that \<^verbatim>\<open>get_reports\<close> builds: the filters that take effect.
\<close>

lemma get_reports_eq:
  "get_reports c s st
     = take 1000 (sort_desc created_at
         (filter (spec_selected (effective c) (effective s)) (reports st)))"
  by (simp add: get_reports_def to_list_def matches_query cong: filter_cong)

text \<open>
  C9. The claim: for every filter the list holds exactly the records whose fields equal the
  filter values given. As stated it fails twice. With the empty text as city filter the
  example store gives both its reports, though the city of neither is the empty text; and
  of the 1001 reports of the crowded store only 1000 are listed.
\<close>

theorem get_reports_exact_counterexample:
  "mset (get_reports (Some []) None admin_db)
     \<noteq> mset (filter (spec_selected (Some []) None) (reports admin_db))
   \<and> length (get_reports None None crowded_db)
     \<noteq> length (filter (spec_selected None None) (reports crowded_db))"
proof
  have "get_reports (Some []) None admin_db = [quake_report, flood_report]"
    by (simp add: get_reports_def to_list_def sort_desc_def admin_db_def flood_report_def
        quake_report_def)
  moreover have "filter (spec_selected (Some []) None) (reports admin_db) = []"
    by (simp add: spec_selected_def admin_db_def flood_report_def quake_report_def)
  ultimately show "mset (get_reports (Some []) None admin_db)
     \<noteq> mset (filter (spec_selected (Some []) None) (reports admin_db))"
    by simp
next
  have "length (get_reports None None crowded_db) \<le> 1000"
    by (simp add: get_reports_def to_list_def)
  moreover have "length (filter (spec_selected None None) (reports crowded_db)) = 1001"
    by (simp add: spec_selected_def crowded_db_def)
  ultimately show "length (get_reports None None crowded_db)
     \<noteq> length (filter (spec_selected None None) (reports crowded_db))"
    by simp
qed

text \<open>
  C9, as the code has it. A filter value that is absent or the empty text imposes nothing;
  the other values are compared exactly. The list is in descending order of
  \<^verbatim>\<open>created_at\<close>, holds 1000 records or all that are selected if these are fewer,
  holds selected records only, and every selected record left out is no newer than any
  record listed. The handler takes no credential and never fails.
\<close>

theorem get_reports_listing:
  "sorted_wrt (\<lambda>a b. created_at b \<le> created_at a) (get_reports c s st)
   \<and> length (get_reports c s st)
       = min 1000 (length (filter (spec_selected (effective c) (effective s)) (reports st)))
   \<and> (\<exists>rest. mset (get_reports c s st) + mset rest
                = mset (filter (spec_selected (effective c) (effective s)) (reports st))
             \<and> (\<forall>x \<in> set rest. \<forall>y \<in> set (get_reports c s st). created_at x \<le> created_at y))"
proof -
  define sel where "sel = filter (spec_selected (effective c) (effective s)) (reports st)"
  define srt where "srt = sort_desc created_at sel"
  have res: "get_reports c s st = take 1000 srt"
    by (simp add: get_reports_eq srt_def sel_def)
  have sorted_all: "sorted_wrt (\<lambda>a b. created_at b \<le> created_at a) srt"
    unfolding srt_def by (rule sort_desc_sorted)
  then have "sorted_wrt (\<lambda>a b. created_at b \<le> created_at a) (take 1000 srt @ drop 1000 srt)"
    by simp
  then have parts: "sorted_wrt (\<lambda>a b. created_at b \<le> created_at a) (take 1000 srt)"
    and cross: "\<forall>y \<in> set (take 1000 srt). \<forall>x \<in> set (drop 1000 srt). created_at x \<le> created_at y"
    unfolding sorted_wrt_append by blast+
  have len: "length (take 1000 srt) = min 1000 (length sel)"
    by (simp add: srt_def length_sort_desc min.commute)
  have "mset (take 1000 srt) + mset (drop 1000 srt) = mset srt"
    by (metis append_take_drop_id mset_append)
  then have ms: "mset (take 1000 srt) + mset (drop 1000 srt) = mset sel"
    by (simp add: srt_def mset_sort_desc)
  from cross have cross': "\<forall>x \<in> set (drop 1000 srt). \<forall>y \<in> set (take 1000 srt). created_at x \<le> created_at y"
    by blast
  from parts len ms cross' show ?thesis
    unfolding res sel_def [symmetric] by blast
qed

theorem get_reports_listing_witness:
  "length (get_reports None None crowded_db) = 1000
   \<and> (\<exists>rest. rest \<noteq> []
          \<and> mset (get_reports None None crowded_db) + mset rest = mset (reports crowded_db))"
proof -
  have sel: "filter (spec_selected (effective None) (effective None)) (reports crowded_db)
      = reports crowded_db"
    by (simp add: spec_selected_def)
  have n: "length (reports crowded_db) = 1001"
    by (simp add: crowded_db_def)
  from get_reports_listing [of None None crowded_db]
  obtain rest where len: "length (get_reports None None crowded_db) = 1000"
    and ms: "mset (get_reports None None crowded_db) + mset rest = mset (reports crowded_db)"
    unfolding sel n by auto
  from ms have "size (mset (get_reports None None crowded_db)) + size (mset rest)
      = size (mset (reports crowded_db))"
    by (metis size_union)
  with len n have "length rest = 1" by simp
  then have "rest \<noteq> []" by auto
  with len ms show ?thesis by blast
qed

text \<open>
  C5. For an administrator's update request: when no stored report has the id, the answer
  is status 404 and the store is unchanged; when one has, the first such report gets the
  status of the request, the score and the flag of the request where these are given
  (a key left out or null keeps the stored value), and \<^verbatim>\<open>updated_at\<close> set to the
  time of the request, while its other fields and all other reports stay as they were.
\<close>

theorem update_report_partial:
  assumes admin: "verify_admin now st authorization = Inr uid"
  shows "((\<forall>r \<in> set (reports st). report_ident r \<noteq> report_id) \<longrightarrow>
            update_report now report_id u authorization st
              = (Inl (HTTPException 404 ''Report not found''), st))
       \<and> ((\<exists>r \<in> set (reports st). report_ident r = report_id) \<longrightarrow>
            (\<exists>pre r post.
               reports st = pre @ r # post
               \<and> (\<forall>x \<in> set pre. report_ident x \<noteq> report_id)
               \<and> report_ident r = report_id
               \<and> update_report now report_id u authorization st
                   = (Inr ''Report updated successfully'',
                      st\<lparr>reports := pre @
                         r\<lparr>status := ru_status u,
                           ai_severity_score :=
                             (case ru_ai_severity_score u of
                                None \<Rightarrow> ai_severity_score r | Some v \<Rightarrow> Some v),
                           ai_auto_flag :=
                             (case ru_ai_auto_flag u of
                                None \<Rightarrow> ai_auto_flag r | Some v \<Rightarrow> v),
                           updated_at := now\<rparr> # post\<rparr>)))"
proof (intro conjI impI)
  assume none: "\<forall>r \<in> set (reports st). report_ident r \<noteq> report_id"
  then have "update_one (\<lambda>r. report_ident r = report_id) (set_all (update_data now u)) (reports st)
               = (reports st, 0)"
    by (intro update_one_no_match) simp
  with admin show "update_report now report_id u authorization st
      = (Inl (HTTPException 404 ''Report not found''), st)"
    by (simp add: update_report_def)
next
  assume "\<exists>r \<in> set (reports st). report_ident r = report_id"
  then have "\<exists>pre r post. reports st = pre @ r # post
               \<and> report_ident r = report_id \<and> (\<forall>x \<in> set pre. report_ident x \<noteq> report_id)"
    by (rule split_list_first_prop)
  then obtain pre r post where split: "reports st = pre @ r # post"
    and hit: "report_ident r = report_id"
    and miss: "\<forall>x \<in> set pre. report_ident x \<noteq> report_id"
    by blast
  have upd: "update_one (\<lambda>r. report_ident r = report_id) (set_all (update_data now u)) (reports st)
               = (pre @ set_all (update_data now u) r # post, 1)"
    unfolding split using miss hit by (intro update_one_first_match) simp_all
  have fields: "set_all (update_data now u) r
      = r\<lparr>status := ru_status u,
          ai_severity_score :=
            (case ru_ai_severity_score u of None \<Rightarrow> ai_severity_score r | Some v \<Rightarrow> Some v),
          ai_auto_flag := (case ru_ai_auto_flag u of None \<Rightarrow> ai_auto_flag r | Some v \<Rightarrow> v),
          updated_at := now\<rparr>"
    by (simp add: set_all_def update_data_def split: option.splits)
  from admin upd fields split hit miss
  show "\<exists>pre r post.
               reports st = pre @ r # post
               \<and> (\<forall>x \<in> set pre. report_ident x \<noteq> report_id)
               \<and> report_ident r = report_id
               \<and> update_report now report_id u authorization st
                   = (Inr ''Report updated successfully'',
                      st\<lparr>reports := pre @
                         r\<lparr>status := ru_status u,
                           ai_severity_score :=
                             (case ru_ai_severity_score u of
                                None \<Rightarrow> ai_severity_score r | Some v \<Rightarrow> Some v),
                           ai_auto_flag :=
                             (case ru_ai_auto_flag u of
                                None \<Rightarrow> ai_auto_flag r | Some v \<Rightarrow> v),
                           updated_at := now\<rparr> # post\<rparr>)"
    by (intro exI[of _ pre] exI[of _ r] exI[of _ post]) (simp add: update_report_def)
qed

theorem update_report_partial_witness:
  "verify_admin 30 admin_db (Some ''session_admin'') = Inr ''u-admin''
   \<and> update_report 30 ''r-9'' validate_only (Some ''session_admin'') admin_db
       = (Inl (HTTPException 404 ''Report not found''), admin_db)
   \<and> update_report 30 ''r-2'' validate_only (Some ''session_admin'') admin_db
       = (Inr ''Report updated successfully'',
          admin_db\<lparr>reports := [flood_report, quake_report\<lparr>status := ''validated'', updated_at := 30\<rparr>]\<rparr>)"
proof -
  have rs: "reports admin_db = [flood_report, quake_report]"
    by (simp add: admin_db_def)
  have ids: "report_ident flood_report = ''r-1''" "report_ident quake_report = ''r-2''"
    by (simp_all add: flood_report_def quake_report_def)
  have absent: "\<forall>r \<in> set (reports admin_db). report_ident r \<noteq> ''r-9''"
    by (simp add: rs ids)
  have present: "\<exists>r \<in> set (reports admin_db). report_ident r = ''r-2''"
    by (simp add: rs ids)
  from update_report_partial [OF admin_db_admin, of "''r-9''" validate_only] absent
  have first: "update_report 30 ''r-9'' validate_only (Some ''session_admin'') admin_db
       = (Inl (HTTPException 404 ''Report not found''), admin_db)"
    by blast
  from update_report_partial [OF admin_db_admin, of "''r-2''" validate_only] present
  obtain pre r post where split: "reports admin_db = pre @ r # post"
    and miss: "\<forall>x \<in> set pre. report_ident x \<noteq> ''r-2''"
    and hit: "report_ident r = ''r-2''"
    and res: "update_report 30 ''r-2'' validate_only (Some ''session_admin'') admin_db
      = (Inr ''Report updated successfully'',
         admin_db\<lparr>reports := pre @
            r\<lparr>status := ru_status validate_only,
              ai_severity_score :=
                (case ru_ai_severity_score validate_only of
                   None \<Rightarrow> ai_severity_score r | Some v \<Rightarrow> Some v),
              ai_auto_flag :=
                (case ru_ai_auto_flag validate_only of
                   None \<Rightarrow> ai_auto_flag r | Some v \<Rightarrow> v),
              updated_at := 30\<rparr> # post\<rparr>)"
    by blast
  from split miss hit have "pre = [flood_report] \<and> r = quake_report \<and> post = []"
    unfolding rs by (cases pre; cases "tl pre") (auto simp: ids)
  with res have "update_report 30 ''r-2'' validate_only (Some ''session_admin'') admin_db
       = (Inr ''Report updated successfully'',
          admin_db\<lparr>reports := [flood_report, quake_report\<lparr>status := ''validated'', updated_at := 30\<rparr>]\<rparr>)"
    by (simp add: validate_only_def)
  with first admin_db_admin show ?thesis by simp
qed

section \<open>The aggregation stub\<close>

text \<open>
  What the loop over the city groups would do for one group, were it reached: one
  \<^verbatim>\<open>AIUpdate\<close> of region ``city'' named after the city, and a patch of score 0.6,
  flag false and a fresh \<^verbatim>\<open>updated_at\<close>.
\<close>

lemma stub_patch:
  "set_all [SetAiSeverityScore (6 / 10), SetAiAutoFlag (6 / 10 > (7 / 10 :: real)), SetUpdatedAt now] r
     = r\<lparr>ai_severity_score := Some (6 / 10), ai_auto_flag := False, updated_at := now\<rparr>"
  by (simp add: set_all_def)

lemma analyze_one_city:
  "analyze_cities now uuids [(Some c, r0 # others)] [] st
     = (Inr [\<lparr>ai_update_ident = uuids 0, region = ''city'', region_name = c,
               summary = ''Monitoring '' @ str_nat (Suc (length others)) @ '' incidents in '' @ c
                           @ ''. Situation under control.'',
               severity_data = [\<lparr>incident_title = title r0, incident_severity = ''moderate'',
                                 priority = 1\<rparr>],
               last_run_at = now\<rparr>],
        st\<lparr>ai_updates := ai_updates st @
              [\<lparr>ai_update_ident = uuids 0, region = ''city'', region_name = c,
                summary = ''Monitoring '' @ str_nat (Suc (length others)) @ '' incidents in '' @ c
                            @ ''. Situation under control.'',
                severity_data = [\<lparr>incident_title = title r0, incident_severity = ''moderate'',
                                  priority = 1\<rparr>],
                last_run_at = now\<rparr>],
           reports := patch_reports now (6 / 10) (r0 # others) (reports st)\<rparr>)"
  by (simp add: mock_ai_response_def Let_def del: str_nat.simps)

text \<open>
  C7. The claim: with no report of the last 24 hours the administrator's trigger returns a
  successful no-op with a message. On the store without any report, for an administrator
  and with the credential configured, the handler ends in status 500: computing the cut-off
  raises \<^verbatim>\<open>AttributeError\<close>, which \<^verbatim>\<open>except Exception\<close> turns into
  ``AI analysis failed: ...''. The store is unchanged.
\<close>

theorem trigger_ai_analysis_no_reports_is_500:
  "trigger_ai_analysis str_of 30 uuids (Some ''key'') (Some ''session_admin'') quiet_db
     = (Inl (HTTPException 500 (''AI analysis failed: '' @ str_of AttributeError)), quiet_db)"
proof -
  have "verify_admin 30 quiet_db (Some ''session_admin'') = Inr ''u-admin''"
    by (simp add: verify_admin_def verify_session_def quiet_db_def admin_db_def
        admin_session_def admin_user_def timedelta_days_def)
  then show ?thesis
    by (simp add: trigger_ai_analysis_def trigger_ai_analysis_try_def datetime_timedelta_def)
qed

text \<open>
  C8. The claim: for every city group one \<^verbatim>\<open>AIUpdate\<close> is persisted and the group's
  reports are patched. For every caller, credential, time and state the handler returns an
  error and leaves the store as it was: no group is ever processed, no record persisted
  and no report patched.
\<close>

theorem trigger_ai_analysis_never_completes:
  "\<exists>e. trigger_ai_analysis str_of now uuids emergent_key authorization st = (Inl e, st)"
  by (simp add: trigger_ai_analysis_def trigger_ai_analysis_try_def datetime_timedelta_def
      split: sum.splits)


section \<open>The dashboard\<close>

text \<open>
  C2. In every state each of the six severity lists of the dashboard payload
  (\<^verbatim>\<open>city_data\<close> and \<^verbatim>\<open>world_data\<close>, each with critical, moderate and low) has
  at most 5 items.
\<close>

theorem dashboard_lists_at_most_five:
  "length (critical (city_data (get_dashboard_data st))) \<le> 5
   \<and> length (moderate (city_data (get_dashboard_data st))) \<le> 5
   \<and> length (low (city_data (get_dashboard_data st))) \<le> 5
   \<and> length (critical (world_data (get_dashboard_data st))) \<le> 5
   \<and> length (moderate (world_data (get_dashboard_data st))) \<le> 5
   \<and> length (low (world_data (get_dashboard_data st))) \<le> 5"
  by (simp add: get_dashboard_data_def Let_def)

text \<open>The six lists of \<^verbatim>\<open>categorize\<close> in closed form.\<close>

lemma categorize_city_critical:
  "city_critical (categorize rs) = map compact_item (filter (\<lambda>r. severity r = ''critical'') rs)"
  by (simp add: categorize_def city_critical_foldl no_categories_def)

lemma categorize_city_moderate:
  "city_moderate (categorize rs) = map compact_item (filter (\<lambda>r. severity r = ''moderate'') rs)"
  by (simp add: categorize_def city_moderate_foldl no_categories_def)

lemma categorize_city_low:
  "city_low (categorize rs)
     = map compact_item (filter (\<lambda>r. severity r \<noteq> ''critical'' \<and> severity r \<noteq> ''moderate'') rs)"
  by (simp add: categorize_def city_low_foldl no_categories_def)

lemma categorize_world_critical: "world_critical (categorize rs) = city_critical (categorize rs)"
  by (simp add: categorize_def city_critical_foldl world_critical_foldl no_categories_def)

lemma categorize_world_moderate: "world_moderate (categorize rs) = city_moderate (categorize rs)"
  by (simp add: categorize_def city_moderate_foldl world_moderate_foldl no_categories_def)

lemma categorize_world_low: "world_low (categorize rs) = city_low (categorize rs)"
  by (simp add: categorize_def city_low_foldl world_low_foldl no_categories_def)

lemma categorize_partition:
  "mset (city_critical (categorize rs)) + mset (city_moderate (categorize rs))
     + mset (city_low (categorize rs)) = mset (map compact_item rs)"
proof -
  have "mset (map compact_item rs) = image_mset compact_item (mset rs)" by simp
  also have "mset rs = mset (filter (\<lambda>r. severity r = ''critical'') rs)
   + mset (filter (\<lambda>r. severity r = ''moderate'') rs)
   + mset (filter (\<lambda>r. severity r \<noteq> ''critical'' \<and> severity r \<noteq> ''moderate'') rs)"
    by (rule three_way_split [symmetric])
  finally show ?thesis
    by (simp add: categorize_city_critical categorize_city_moderate categorize_city_low)
qed

lemma dict_get_slot_of: "dict_get (slot_of x) d = x"
  by (cases x) simp_all

lemma dashboard_after_create:
  assumes auth: "verify_session now st authorization = Inr uid"
    and sev: "body_severity body = Some ''critical''"
    and older: "\<forall>r \<in> set (reports st). created_at r < now"
  shows "\<exists>a st'. create_report now uuid body authorization st = (Inr a, st')
           \<and> compact_item a \<in> set (critical (city_data (get_dashboard_data st')))
           \<and> compact_item a \<in> set (critical (world_data (get_dashboard_data st')))
           \<and> compact_item a =
               \<lparr>item_ident = uuid, item_title = body_title body, item_city = body_city body,
                item_country = body_country body, item_severity = ''critical'',
                item_created_at = now, item_location = body_location body\<rparr>"
proof -
  define a where "a = new_report now uuid uid (parse_report_create body)"
  define st' where "st' = st\<lparr>reports := reports st @ [a]\<rparr>"
  have created: "create_report now uuid body authorization st = (Inr a, st')"
    using auth by (simp add: create_report_def a_def st'_def Let_def)
  have a_sev: "severity a = ''critical''" and a_time: "created_at a = now"
    using sev by (simp_all add: a_def new_report_def parse_report_create_def)
  have projected: "compact_item a =
      \<lparr>item_ident = uuid, item_title = body_title body, item_city = body_city body,
       item_country = body_country body, item_severity = ''critical'',
       item_created_at = now, item_location = body_location body\<rparr>"
    using sev
    by (simp add: compact_item_def a_def new_report_def parse_report_create_def
        dict_get_slot_of)
  define ys where "ys = sort_desc created_at (reports st')"
  have "sorted_wrt (\<lambda>x y. created_at y \<le> created_at x) ys"
    unfolding ys_def by (rule sort_desc_sorted)
  moreover have "a \<in> set ys"
    by (simp add: ys_def set_sort_desc st'_def)
  moreover have "\<And>y. y \<in> set ys \<Longrightarrow> y \<noteq> a \<Longrightarrow> created_at y < created_at a"
    using older by (auto simp: ys_def set_sort_desc st'_def a_time)
  ultimately obtain rest where ys: "ys = a # rest"
    using newest_first [of created_at ys a] by blast
  have fetched: "dashboard_reports st' = a # take 99 rest"
    by (simp add: dashboard_reports_def to_list_def ys_def [symmetric] ys)
  have crit: "city_critical (categorize (dashboard_reports st'))
      = compact_item a # map compact_item (filter (\<lambda>r. severity r = ''critical'') (take 99 rest))"
    by (simp add: categorize_city_critical fetched a_sev)
  have "compact_item a \<in> set (critical (city_data (get_dashboard_data st')))"
    by (simp add: get_dashboard_data_def Let_def crit)
  moreover have "compact_item a \<in> set (critical (world_data (get_dashboard_data st')))"
    by (simp add: get_dashboard_data_def Let_def categorize_world_critical crit)
  ultimately show ?thesis using created projected by blast
qed

text \<open>
  C3. For every state, with \<open>dashboard_reports st\<close> the reports fetched: the critical,
  moderate and low lists are the compact projections of the fetched reports whose severity
  is ``critical'', is ``moderate'', is neither; together they hold each fetched report's
  projection exactly once; each world list equals the city list of the same severity; the
  payload's lists are the first five of these, and its \<^verbatim>\<open>world_data\<close> equals its
  \<^verbatim>\<open>city_data\<close>. The compact projection of a report \<open>r\<close> holds the report's id,
  title, severity, \<^verbatim>\<open>created_at\<close> and location, and its city and country as
  \<^verbatim>\<open>.get\<close> with the default ``Unknown'' reads them. A freshly created report is one
  created at a time later than the \<^verbatim>\<open>created_at\<close> of every stored report: when an
  authenticated caller creates a report of severity ``critical'' at such a time, its
  compact projection is in \<^verbatim>\<open>city_data.critical\<close> and in
  \<^verbatim>\<open>world_data.critical\<close> of the dashboard of the resulting state, and that
  projection holds the new id, the title, city, country and location of the request, the
  severity ``critical'' and the time of the request.
\<close>

theorem dashboard_buckets:
  "city_critical (categorize (dashboard_reports st))
      = map compact_item (filter (\<lambda>r. severity r = ''critical'') (dashboard_reports st))
   \<and> city_moderate (categorize (dashboard_reports st))
      = map compact_item (filter (\<lambda>r. severity r = ''moderate'') (dashboard_reports st))
   \<and> city_low (categorize (dashboard_reports st))
      = map compact_item (filter (\<lambda>r. severity r \<noteq> ''critical'' \<and> severity r \<noteq> ''moderate'')
          (dashboard_reports st))
   \<and> mset (city_critical (categorize (dashboard_reports st)))
       + mset (city_moderate (categorize (dashboard_reports st)))
       + mset (city_low (categorize (dashboard_reports st)))
      = mset (map compact_item (dashboard_reports st))
   \<and> world_critical (categorize (dashboard_reports st))
      = city_critical (categorize (dashboard_reports st))
   \<and> world_moderate (categorize (dashboard_reports st))
      = city_moderate (categorize (dashboard_reports st))
   \<and> world_low (categorize (dashboard_reports st))
      = city_low (categorize (dashboard_reports st))
   \<and> critical (city_data (get_dashboard_data st))
      = take 5 (city_critical (categorize (dashboard_reports st)))
   \<and> moderate (city_data (get_dashboard_data st))
      = take 5 (city_moderate (categorize (dashboard_reports st)))
   \<and> low (city_data (get_dashboard_data st))
      = take 5 (city_low (categorize (dashboard_reports st)))
   \<and> world_data (get_dashboard_data st) = city_data (get_dashboard_data st)
   \<and> (item_ident (compact_item r) = report_ident r
       \<and> item_title (compact_item r) = title r
       \<and> item_city (compact_item r) = dict_get (city r) (Some ''Unknown'')
       \<and> item_country (compact_item r) = dict_get (country r) (Some ''Unknown'')
       \<and> item_severity (compact_item r) = severity r
       \<and> item_created_at (compact_item r) = created_at r
       \<and> item_location (compact_item r) = report_location r)
   \<and> (verify_session now st authorization = Inr uid
        \<and> body_severity body = Some ''critical''
        \<and> (\<forall>r \<in> set (reports st). created_at r < now)
       \<longrightarrow> (\<exists>a st'. create_report now uuid body authorization st = (Inr a, st')
                \<and> compact_item a \<in> set (critical (city_data (get_dashboard_data st')))
                \<and> compact_item a \<in> set (critical (world_data (get_dashboard_data st')))
                \<and> compact_item a =
                    \<lparr>item_ident = uuid, item_title = body_title body,
                     item_city = body_city body, item_country = body_country body,
                     item_severity = ''critical'', item_created_at = now,
                     item_location = body_location body\<rparr>))"
proof (intro conjI impI)
  show "mset (city_critical (categorize (dashboard_reports st)))
       + mset (city_moderate (categorize (dashboard_reports st)))
       + mset (city_low (categorize (dashboard_reports st)))
      = mset (map compact_item (dashboard_reports st))"
    by (rule categorize_partition)
next
  show "world_data (get_dashboard_data st) = city_data (get_dashboard_data st)"
    by (simp add: get_dashboard_data_def Let_def categorize_world_critical
        categorize_world_moderate categorize_world_low)
next
  assume "verify_session now st authorization = Inr uid
        \<and> body_severity body = Some ''critical''
        \<and> (\<forall>r \<in> set (reports st). created_at r < now)"
  then show "\<exists>a st'. create_report now uuid body authorization st = (Inr a, st')
                \<and> compact_item a \<in> set (critical (city_data (get_dashboard_data st')))
                \<and> compact_item a \<in> set (critical (world_data (get_dashboard_data st')))
                \<and> compact_item a =
                    \<lparr>item_ident = uuid, item_title = body_title body,
                     item_city = body_city body, item_country = body_country body,
                     item_severity = ''critical'', item_created_at = now,
                     item_location = body_location body\<rparr>"
    using dashboard_after_create by blast
qed (simp_all add: categorize_city_critical categorize_city_moderate categorize_city_low
      categorize_world_critical categorize_world_moderate categorize_world_low
      get_dashboard_data_def Let_def compact_item_def)

theorem dashboard_buckets_witness:
  "verify_session 30 admin_db (Some ''session_admin'') = Inr ''u-admin''
   \<and> body_severity paris_body = Some ''critical''
   \<and> reports admin_db = [flood_report, quake_report]
   \<and> created_at flood_report < 30 \<and> created_at quake_report < 30
   \<and> (\<exists>a st'. create_report 30 ''r-3'' paris_body (Some ''session_admin'') admin_db = (Inr a, st')
         \<and> paris_item \<in> set (critical (city_data (get_dashboard_data st')))
         \<and> paris_item \<in> set (critical (world_data (get_dashboard_data st')))
         \<and> compact_item a = paris_item)"
proof -
  have sev: "body_severity paris_body = Some ''critical''"
    by (simp add: paris_body_def)
  have rs: "reports admin_db = [flood_report, quake_report]"
    by (simp add: admin_db_def)
  have old: "created_at flood_report < 30 \<and> created_at quake_report < 30"
    by (simp add: flood_report_def quake_report_def)
  then have older: "\<forall>r \<in> set (reports admin_db). created_at r < 30"
    by (simp add: rs)
  have item: "\<lparr>item_ident = ''r-3'', item_title = body_title paris_body,
       item_city = body_city paris_body, item_country = body_country paris_body,
       item_severity = ''critical'', item_created_at = 30,
       item_location = body_location paris_body\<rparr> = paris_item"
    by (simp add: paris_body_def paris_item_def)
  from dashboard_buckets [of admin_db flood_report 30 "Some ''session_admin''" "''u-admin''"
      paris_body "''r-3''"] admin_db_session sev older
  obtain a st' where
    "create_report 30 ''r-3'' paris_body (Some ''session_admin'') admin_db = (Inr a, st')"
    "compact_item a \<in> set (critical (city_data (get_dashboard_data st')))"
    "compact_item a \<in> set (critical (world_data (get_dashboard_data st')))"
    "compact_item a = paris_item"
    unfolding item by blast
  then have "\<exists>a st'. create_report 30 ''r-3'' paris_body (Some ''session_admin'') admin_db
          = (Inr a, st')
        \<and> paris_item \<in> set (critical (city_data (get_dashboard_data st')))
        \<and> paris_item \<in> set (critical (world_data (get_dashboard_data st')))
        \<and> compact_item a = paris_item"
    by metis
  with admin_db_session sev rs old show ?thesis by blast
qed

end
